theory Spec2Isabelle
  imports Complex_Main "HOL-Library.Monad_Syntax"
begin

section \<open>Numbers\<close>

text \<open>
  The program computes with JavaScript numbers. They are modelled in exact arithmetic:
  a finite number is a \<^typ>\<open>real\<close>, and the four operations on finite numbers are
  the operations of the reals (no rounding). The two operations of the program that can
  leave the finite numbers are division (by zero) and \<^verbatim>\<open>Math.sqrt\<close> (of a negative
  number); JavaScript then continues with \<^verbatim>\<open>Infinity\<close> or \<^verbatim>\<open>NaN\<close>. In the model such
  a number is \<open>None\<close>, and every value computed from it is \<open>None\<close> again: the model
  follows an execution as long as all its numbers are finite, and says nothing beyond.
\<close>

definition jdiv :: "real \<Rightarrow> real \<Rightarrow> real option" where
  "jdiv a b = (if b = 0 then None else Some (a / b))"

definition jsqrt :: "real \<Rightarrow> real option" where
  "jsqrt a = (if a < 0 then None else Some (sqrt a))"

section \<open>calculate.ts: odds conversion\<close>

datatype Outcome = YES | NO

datatype OddsType = DecimalOdds | EnglishOdds | ImpliedProbability

text \<open>
  \<^verbatim>\<open>convertOdds({from, to, value})\<close>. The two \<^verbatim>\<open>default: throw\<close> branches are
  unreachable for a value of type \<^verbatim>\<open>OddsType\<close>, which has the three tags only.
\<close>

definition convertOdds :: "OddsType \<Rightarrow> OddsType \<Rightarrow> real \<Rightarrow> real option" where
  "convertOdds from_t to_t v =
     (if from_t = to_t then Some v
      else do {
        decimal \<leftarrow> (case from_t of
                      DecimalOdds \<Rightarrow> Some v
                    | EnglishOdds \<Rightarrow> Some (v + 1)
                    | ImpliedProbability \<Rightarrow> jdiv 1 v);
        (case to_t of
           DecimalOdds \<Rightarrow> Some decimal
         | EnglishOdds \<Rightarrow> Some (decimal - 1)
         | ImpliedProbability \<Rightarrow> jdiv 1 decimal)
      })"

section \<open>calculate.ts: the naive Kelly formula\<close>

record NaiveKellyProps =
  marketProb :: real
  estimatedProb :: real
  deferenceFactor :: real

record KellyFraction =
  fraction :: real
  side :: Outcome

record BetRecommendation =
  amount :: real
  outcome :: Outcome

record BetRecommendationFull = BetRecommendation +
  shares :: real
  pAfter :: real

definition calculateNaiveKellyFraction :: "NaiveKellyProps \<Rightarrow> KellyFraction option" where
  "calculateNaiveKellyFraction props =
     (let outcome_v = (if estimatedProb props > marketProb props then YES else NO)
      in do {
        ratio \<leftarrow> jdiv \<bar>estimatedProb props - marketProb props\<bar> (1 - marketProb props);
        let fraction_v = deferenceFactor props * ratio;
        let clampedFraction = min (max fraction_v 0) 1;
        Some \<lparr>fraction = clampedFraction, side = outcome_v\<rparr>
      })"

definition calculateNaiveKellyBet :: "real \<Rightarrow> NaiveKellyProps \<Rightarrow> BetRecommendation option" where
  "calculateNaiveKellyBet bankroll fractionOnlyProps =
     do {
       r \<leftarrow> calculateNaiveKellyFraction fractionOnlyProps;
       Some \<lparr>amount = bankroll * fraction r, outcome = side r\<rparr>
     }"

section \<open>calculate.ts: numerical differentiation and root finding\<close>

text \<open>
  An \<^verbatim>\<open>AsyncUnivariateFunction\<close> is awaited at once wherever it is called, so it is a
  function from a number to a number; it is \<open>None\<close> where its value is not finite.
\<close>

definition D :: "(real \<Rightarrow> real option) \<Rightarrow> real \<Rightarrow> real \<Rightarrow> real option" where
  "D f x h =
     do {
       fPlus \<leftarrow> f (x + h);
       fMinus \<leftarrow> f (x - h);
       jdiv (fPlus - fMinus) (2 * h)
     }"

text \<open>
  The loop of \<^verbatim>\<open>findRoot\<close> is left by one of two \<^verbatim>\<open>return\<close> statements: the one
  inside the loop (\<open>Converged\<close>, with the loop index \<open>i\<close> at which the test
  \<^verbatim>\<open>Math.abs(xNext - x) < tolerance\<close> held, and \<^verbatim>\<open>xNext\<close>), or the one after it
  (\<open>Exhausted\<close>, with the last \<^verbatim>\<open>x\<close>). The first argument of the loop counts the
  iterations that remain, \<^verbatim>\<open>iterations - i\<close>.
\<close>

datatype loop_exit = Converged nat real | Exhausted real

fun exit_value :: "loop_exit \<Rightarrow> real" where
  "exit_value (Converged i x) = x"
| "exit_value (Exhausted x) = x"

definition clampToBounds :: "real \<Rightarrow> real \<Rightarrow> real \<Rightarrow> real" where
  "clampToBounds lowerBound upperBound xNext =
     (if xNext < lowerBound \<or> xNext > upperBound
      then (if xNext < lowerBound then lowerBound else upperBound)
      else xNext)"

definition newtonStep :: "(real \<Rightarrow> real option) \<Rightarrow> real \<Rightarrow> real \<Rightarrow> real \<Rightarrow> real option" where
  "newtonStep f lowerBound upperBound x =
     do {
       fx \<leftarrow> f x;
       dfx \<leftarrow> D f x (1 / 1000);
       q \<leftarrow> jdiv fx dfx;
       Some (clampToBounds lowerBound upperBound (x - q))
     }"

fun findRoot_loop ::
  "(real \<Rightarrow> real option) \<Rightarrow> real \<Rightarrow> real \<Rightarrow> real \<Rightarrow> nat \<Rightarrow> nat \<Rightarrow> real \<Rightarrow> loop_exit option" where
  "findRoot_loop f lowerBound upperBound tolerance 0 i x = Some (Exhausted x)"
| "findRoot_loop f lowerBound upperBound tolerance (Suc n) i x =
     do {
       xNext \<leftarrow> newtonStep f lowerBound upperBound x;
       if \<bar>xNext - x\<bar> < tolerance then Some (Converged i xNext)
       else findRoot_loop f lowerBound upperBound tolerance n (Suc i) xNext
     }"

definition findRoot_run ::
  "(real \<Rightarrow> real option) \<Rightarrow> real \<Rightarrow> real \<Rightarrow> nat \<Rightarrow> real \<Rightarrow> loop_exit option" where
  "findRoot_run f lowerBound upperBound iterations tolerance =
     findRoot_loop f lowerBound upperBound tolerance iterations 0 ((lowerBound + upperBound) / 2)"

definition findRoot :: "(real \<Rightarrow> real option) \<Rightarrow> real \<Rightarrow> real \<Rightarrow> nat \<Rightarrow> real \<Rightarrow> real option" where
  "findRoot f lowerBound upperBound iterations tolerance =
     map_option exit_value (findRoot_run f lowerBound upperBound iterations tolerance)"

text \<open>The default arguments \<^verbatim>\<open>iterations = 10\<close> and \<^verbatim>\<open>tolerance = 1e-6\<close>.\<close>

definition findRoot_default :: "(real \<Rightarrow> real option) \<Rightarrow> real \<Rightarrow> real \<Rightarrow> real option" where
  "findRoot_default f lowerBound upperBound = findRoot f lowerBound upperBound 10 (1 / 1000000)"

section \<open>probability.ts: the payout distribution engine\<close>

text \<open>
  A \<^verbatim>\<open>Map<number, number>\<close> keeps its entries in insertion order, and \<^verbatim>\<open>set\<close> on a
  key that is present replaces the value where the entry stands: an association list
  with distinct keys, updated in place or extended at the end.
\<close>

type_synonym PMF = "(real \<times> real) list"

fun map_set :: "real \<Rightarrow> real \<Rightarrow> PMF \<Rightarrow> PMF" where
  "map_set k v [] = [(k, v)]"
| "map_set k v ((k', v') # m) = (if k' = k then (k, v) # m else (k', v') # map_set k v m)"

definition map_get :: "PMF \<Rightarrow> real \<Rightarrow> real option" where
  "map_get m k = map_of m k"

text \<open>\<^verbatim>\<open>new Map(entries)\<close> sets the entries one after the other.\<close>

definition new_Map :: "(real \<times> real) list \<Rightarrow> PMF" where
  "new_Map entries = foldl (\<lambda>m (k, v). map_set k v m) [] entries"

text \<open>\<^verbatim>\<open>result.get(k) || 0\<close>: an absent entry and a zero entry both give 0.\<close>

definition get_or_0 :: "PMF \<Rightarrow> real \<Rightarrow> real" where
  "get_or_0 m k = (case map_get m k of None \<Rightarrow> 0 | Some p \<Rightarrow> if p = 0 then 0 else p)"

definition accumulate :: "PMF \<Rightarrow> real \<Rightarrow> real \<Rightarrow> PMF" where
  "accumulate result k p = map_set k (get_or_0 result k + p) result"

record PositionModel =
  probability :: real
  payout :: real
  loan :: "real option"

definition convolveDistributions :: "PMF \<Rightarrow> PMF \<Rightarrow> PMF" where
  "convolveDistributions pmf1 pmf2 =
     foldl (\<lambda>result (payout1, prob1).
              foldl (\<lambda>result (payout2, prob2).
                       accumulate result (payout1 + payout2) (prob1 * prob2))
                    result pmf2)
           [] pmf1"

definition cartesianProduct :: "'a list list \<Rightarrow> 'a list list" where
  "cartesianProduct allEntries =
     foldl (\<lambda>results entries.
              concat (map (\<lambda>result. map (\<lambda>entry. result @ [entry]) entries) results))
           [[]] allEntries"

definition betBranches :: "PositionModel \<Rightarrow> PositionModel list" where
  "betBranches bet =
     [\<lparr>probability = 1 - probability bet, payout = 0, loan = None\<rparr>,
      \<lparr>probability = probability bet, payout = payout bet, loan = None\<rparr>]"

definition outcomeProbAndPayout :: "PositionModel list \<Rightarrow> PositionModel" where
  "outcomeProbAndPayout outcome_v =
     \<lparr>probability = foldl (\<lambda>acc betOutcome. acc * probability betOutcome) 1 outcome_v,
      payout = foldl (\<lambda>acc betOutcome. acc + payout betOutcome) 0 outcome_v,
      loan = None\<rparr>"

definition computePayoutPMFCartesian :: "PositionModel list \<Rightarrow> PMF" where
  "computePayoutPMFCartesian bets =
     (let outcomes = cartesianProduct (map betBranches bets);
          outcomeProbsAndPayouts = map outcomeProbAndPayout outcomes
      in foldl (\<lambda>combinedDistribution outcome_v.
                  accumulate combinedDistribution (payout outcome_v) (probability outcome_v))
               [] outcomeProbsAndPayouts)"

definition computePayoutPMFConvolution :: "PositionModel list \<Rightarrow> PMF" where
  "computePayoutPMFConvolution bets =
     foldl (\<lambda>combinedDistribution bet.
              convolveDistributions combinedDistribution
                (new_Map [(0, 1 - probability bet), (payout bet, probability bet)]))
           (new_Map [(0, 1)]) bets"

datatype Method = Convolution | Cartesian

definition computePayoutDistribution :: "PositionModel list \<Rightarrow> Method \<Rightarrow> PMF" where
  "computePayoutDistribution bets method =
     (if method = Convolution then computePayoutPMFConvolution bets
      else computePayoutPMFCartesian bets)"

definition computeExpectedValue :: "PMF \<Rightarrow> real" where
  "computeExpectedValue pmf = foldl (\<lambda>expectedValue (payout_v, prob). expectedValue + payout_v * prob) 0 pmf"

definition integrateOverPmf :: "(real \<Rightarrow> real option) \<Rightarrow> PMF \<Rightarrow> real option" where
  "integrateOverPmf f pmf =
     foldl (\<lambda>result (payout_v, prob).
              do { r \<leftarrow> result; y \<leftarrow> f payout_v; Some (r + y * prob) })
           (Some 0) pmf"

text \<open>The total mass of a PMF, and two PMFs that are the same mapping.\<close>

definition totalMass :: "PMF \<Rightarrow> real" where
  "totalMass pmf = sum_list (map snd pmf)"

definition samePMF :: "PMF \<Rightarrow> PMF \<Rightarrow> bool" where
  "samePMF p q = (set p = set q)"

section \<open>calculate.ts: the liquidity-aware optimizers\<close>

text \<open>
  The two collaborators of \<^verbatim>\<open>./market-utils\<close> are parameters of the model.
  \<open>getMarketProbability env slug\<close> is the value of
  \<^verbatim>\<open>(await (await fetchMarketCached({slug})).getMarket())?.probability\<close>, with \<open>None\<close>
  for \<^verbatim>\<open>undefined\<close>; \<open>getBinaryCpmmBetInfoWrapper env\<close> is the bet simulator.
\<close>

record BetInfo =
  newShares :: real
  probAfter :: "real option"

record Collaborators =
  getMarketProbability :: "string \<Rightarrow> real option"
  getBinaryCpmmBetInfoWrapper :: "Outcome \<Rightarrow> real \<Rightarrow> string \<Rightarrow> BetInfo"

text \<open>The result of both optimizers when \<^verbatim>\<open>!startingMarketProb\<close> holds.\<close>

definition degenerate :: BetRecommendationFull where
  "degenerate = \<lparr>amount = 0, outcome = YES, shares = 0, pAfter = 0\<rparr>"

text \<open>The closure \<^verbatim>\<open>englishOdds\<close>, the same in both optimizers.\<close>

definition englishOdds :: "Collaborators \<Rightarrow> Outcome \<Rightarrow> string \<Rightarrow> real \<Rightarrow> real option" where
  "englishOdds env outcome_v marketSlug betEstimate =
     jdiv (newShares (getBinaryCpmmBetInfoWrapper env outcome_v betEstimate marketSlug) - betEstimate)
          betEstimate"

definition winProb :: "real \<Rightarrow> real \<Rightarrow> real \<Rightarrow> Outcome \<Rightarrow> real" where
  "winProb estimatedProb_v deferenceFactor_v startingMarketProb outcome_v =
     (let pYes = estimatedProb_v * deferenceFactor_v + (1 - deferenceFactor_v) * startingMarketProb;
          qYes = 1 - pYes
      in if outcome_v = YES then pYes else qYes)"

text \<open>
  The closure \<^verbatim>\<open>calcBetEstimate\<close> of \<^verbatim>\<open>calculateFullKellyBet\<close>; the closure
  \<^verbatim>\<open>dEVdBetBalanceOnly\<close> of the portfolio variant has the same body, with
  \<^verbatim>\<open>balance\<close> for \<^verbatim>\<open>bankroll\<close>.
\<close>

definition calcBetEstimate ::
  "Collaborators \<Rightarrow> real \<Rightarrow> real \<Rightarrow> string \<Rightarrow> real \<Rightarrow> real \<Rightarrow> Outcome \<Rightarrow> real \<Rightarrow> real option" where
  "calcBetEstimate env estimatedProb_v deferenceFactor_v marketSlug bankroll startingMarketProb outcome_v betEstimate =
     do {
       englishOddsEstimate \<leftarrow> englishOdds env outcome_v marketSlug betEstimate;
       englishOddsDerivative \<leftarrow> D (englishOdds env outcome_v marketSlug) betEstimate (1 / 10);
       let pWin = winProb estimatedProb_v deferenceFactor_v startingMarketProb outcome_v;
       let qWin = 1 - pWin;
       let A = pWin * bankroll * englishOddsDerivative;
       let B = englishOddsEstimate - A;
       let C = - (pWin * englishOddsEstimate - qWin);
       f \<leftarrow> (if A = 0 then jdiv (- C) B
             else do { s \<leftarrow> jsqrt (B * B - 4 * A * C); jdiv (- B + s) (2 * A) });
       let newBetEstimate = f * bankroll;
       Some (newBetEstimate - betEstimate)
     }"

definition dEVdBetBalanceOnly ::
  "Collaborators \<Rightarrow> real \<Rightarrow> real \<Rightarrow> string \<Rightarrow> real \<Rightarrow> real \<Rightarrow> Outcome \<Rightarrow> real \<Rightarrow> real option" where
  "dEVdBetBalanceOnly env estimatedProb_v deferenceFactor_v marketSlug balance startingMarketProb outcome_v betEstimate =
     do {
       englishOddsEstimate \<leftarrow> englishOdds env outcome_v marketSlug betEstimate;
       englishOddsDerivative \<leftarrow> D (englishOdds env outcome_v marketSlug) betEstimate (1 / 10);
       let pWin = winProb estimatedProb_v deferenceFactor_v startingMarketProb outcome_v;
       let qWin = 1 - pWin;
       let A = pWin * balance * englishOddsDerivative;
       let B = englishOddsEstimate - A;
       let C = - (pWin * englishOddsEstimate - qWin);
       f \<leftarrow> (if A = 0 then jdiv (- C) B
             else do { s \<leftarrow> jsqrt (B * B - 4 * A * C); jdiv (- B + s) (2 * A) });
       let newBetEstimate = f * balance;
       Some (newBetEstimate - betEstimate)
     }"

text \<open>
  The expression \<^verbatim>\<open>A + B + C\<close> of \<^verbatim>\<open>dEVdBetIlliquidCashedOut\<close>, which is also the
  \<^verbatim>\<open>integrand\<close> of \<^verbatim>\<open>dEVdBet\<close>, as a function of the relative illiquid value \<open>I\<close>.
\<close>

definition marginalEV :: "real \<Rightarrow> real \<Rightarrow> real \<Rightarrow> real \<Rightarrow> real \<Rightarrow> real \<Rightarrow> real \<Rightarrow> real option" where
  "marginalEV pWin qWin englishOddsEstimate englishOddsDerivative balance f I =
     do {
       A \<leftarrow> jdiv (pWin * englishOddsEstimate) (1 + I + f * englishOddsEstimate);
       B \<leftarrow> jdiv (- qWin) (1 + I - f);
       C \<leftarrow> jdiv (pWin * f * englishOddsDerivative * balance) (1 + I + f * englishOddsEstimate);
       Some (A + B + C)
     }"

definition dEVdBetIlliquidCashedOut ::
  "Collaborators \<Rightarrow> real \<Rightarrow> real \<Rightarrow> string \<Rightarrow> real \<Rightarrow> real \<Rightarrow> real \<Rightarrow> Outcome \<Rightarrow> real \<Rightarrow> real option" where
  "dEVdBetIlliquidCashedOut env estimatedProb_v deferenceFactor_v marketSlug balance relativeIlliquidEV
       startingMarketProb outcome_v betEstimate =
     do {
       englishOddsEstimate \<leftarrow> englishOdds env outcome_v marketSlug betEstimate;
       englishOddsDerivative \<leftarrow> D (englishOdds env outcome_v marketSlug) betEstimate (1 / 10);
       let pWin = winProb estimatedProb_v deferenceFactor_v startingMarketProb outcome_v;
       let qWin = 1 - pWin;
       f \<leftarrow> jdiv betEstimate balance;
       marginalEV pWin qWin englishOddsEstimate englishOddsDerivative balance f relativeIlliquidEV
     }"

definition dEVdBet ::
  "Collaborators \<Rightarrow> real \<Rightarrow> real \<Rightarrow> string \<Rightarrow> real \<Rightarrow> PMF \<Rightarrow> real \<Rightarrow> Outcome \<Rightarrow> real \<Rightarrow> real option" where
  "dEVdBet env estimatedProb_v deferenceFactor_v marketSlug balance illiquidPmf
       startingMarketProb outcome_v betEstimate =
     do {
       englishOddsEstimate \<leftarrow> englishOdds env outcome_v marketSlug betEstimate;
       englishOddsDerivative \<leftarrow> D (englishOdds env outcome_v marketSlug) betEstimate (1 / 10);
       let pWin = winProb estimatedProb_v deferenceFactor_v startingMarketProb outcome_v;
       let qWin = 1 - pWin;
       f \<leftarrow> jdiv betEstimate balance;
       integrateOverPmf (marginalEV pWin qWin englishOddsEstimate englishOddsDerivative balance f)
         illiquidPmf
     }"

definition calculateFullKellyBet ::
  "Collaborators \<Rightarrow> real \<Rightarrow> real \<Rightarrow> string \<Rightarrow> real \<Rightarrow> BetRecommendationFull option" where
  "calculateFullKellyBet env estimatedProb_v deferenceFactor_v marketSlug bankroll =
     (case getMarketProbability env marketSlug of
        None \<Rightarrow> Some degenerate
      | Some startingMarketProb \<Rightarrow>
          if startingMarketProb = 0 then Some degenerate
          else do {
            naive \<leftarrow> calculateNaiveKellyBet bankroll
                      \<lparr>marketProb = startingMarketProb, estimatedProb = estimatedProb_v,
                       deferenceFactor = deferenceFactor_v\<rparr>;
            let naiveKellyAmount = amount naive;
            let outcome_v = outcome naive;
            let lowerBound = 0;
            let upperBound = naiveKellyAmount;
            optimalBet \<leftarrow> findRoot_default
              (calcBetEstimate env estimatedProb_v deferenceFactor_v marketSlug bankroll
                 startingMarketProb outcome_v)
              lowerBound upperBound;
            let info = getBinaryCpmmBetInfoWrapper env outcome_v optimalBet marketSlug;
            Some \<lparr>amount = optimalBet, outcome = outcome_v, shares = newShares info,
                  pAfter = (case probAfter info of None \<Rightarrow> 0 | Some p \<Rightarrow> p)\<rparr>
          })"

text \<open>
  The three root-finds of the portfolio variant, which it prints with
  \<^verbatim>\<open>console.log({ optimalBetInitial, optimalBet, optimalBetHigh })\<close>.
\<close>

record RootFinds =
  optimalBetInitial :: real
  optimalBet :: real
  optimalBetHigh :: real

definition portfolioRootFinds ::
  "Collaborators \<Rightarrow> real \<Rightarrow> real \<Rightarrow> string \<Rightarrow> real \<Rightarrow> real \<Rightarrow> PMF \<Rightarrow> real \<Rightarrow> Outcome
     \<Rightarrow> real \<Rightarrow> real \<Rightarrow> RootFinds option" where
  "portfolioRootFinds env estimatedProb_v deferenceFactor_v marketSlug balance relativeIlliquidEV
       illiquidPmf startingMarketProb outcome_v lowerBound upperBound =
     do {
       initial \<leftarrow> findRoot_default
         (dEVdBetBalanceOnly env estimatedProb_v deferenceFactor_v marketSlug balance
            startingMarketProb outcome_v)
         lowerBound upperBound;
       bet \<leftarrow> findRoot_default
         (dEVdBet env estimatedProb_v deferenceFactor_v marketSlug balance illiquidPmf
            startingMarketProb outcome_v)
         (initial * (1 / 2)) (initial * 2);
       high \<leftarrow> findRoot_default
         (dEVdBetIlliquidCashedOut env estimatedProb_v deferenceFactor_v marketSlug balance
            relativeIlliquidEV startingMarketProb outcome_v)
         (initial * (1 / 2)) (initial * 2);
       Some \<lparr>optimalBetInitial = initial, optimalBet = bet, optimalBetHigh = high\<rparr>
     }"

text \<open>
  \<^verbatim>\<open>calculateFullKellyBetWithPortfolio\<close>, with what it prints beside what it returns:
  the first component is the object given to \<^verbatim>\<open>console.log\<close> (\<open>None\<close> on the path
  that prints no such object), the second the returned recommendation. The numbers
  \<^verbatim>\<open>relativeIlliquidEV\<close> and \<^verbatim>\<open>illiquidPmf\<close> are computed before the guard and used
  after it only, so a non-finite \<^verbatim>\<open>relativeIlliquidEV\<close> (for \<^verbatim>\<open>balance = 0\<close>) does
  not reach the degenerate result. The argument \<^verbatim>\<open>portfolioValue\<close> is the last one.
\<close>

definition fullKellyPortfolio_run ::
  "Collaborators \<Rightarrow> real \<Rightarrow> real \<Rightarrow> string \<Rightarrow> real \<Rightarrow> real
     \<Rightarrow> (RootFinds option \<times> BetRecommendationFull) option" where
  "fullKellyPortfolio_run env estimatedProb_v deferenceFactor_v marketSlug balance portfolioValue =
     (let illiquidEV = 1000;
          relativeIlliquidEV = jdiv illiquidEV balance;
          illiquidPmf = map_option
            (\<lambda>r. computePayoutDistribution
                    [\<lparr>probability = 1 / 2, payout = r * (1 / (1 / 2)), loan = None\<rparr>] Cartesian)
            relativeIlliquidEV
      in case getMarketProbability env marketSlug of
           None \<Rightarrow> Some (None, degenerate)
         | Some startingMarketProb \<Rightarrow>
             if startingMarketProb = 0 then Some (None, degenerate)
             else do {
               naive \<leftarrow> calculateNaiveKellyBet balance
                         \<lparr>marketProb = startingMarketProb, estimatedProb = estimatedProb_v,
                          deferenceFactor = deferenceFactor_v\<rparr>;
               let naiveKellyAmount = amount naive;
               let outcome_v = outcome naive;
               let lowerBound = 0;
               let upperBound = naiveKellyAmount;
               rel \<leftarrow> relativeIlliquidEV;
               pmf \<leftarrow> illiquidPmf;
               finds \<leftarrow> portfolioRootFinds env estimatedProb_v deferenceFactor_v marketSlug balance
                         rel pmf startingMarketProb outcome_v lowerBound upperBound;
               let info = getBinaryCpmmBetInfoWrapper env outcome_v (optimalBet finds) marketSlug;
               Some (Some finds,
                     \<lparr>amount = optimalBet finds, outcome = outcome_v, shares = newShares info,
                      pAfter = (case probAfter info of None \<Rightarrow> 0 | Some p \<Rightarrow> p)\<rparr>)
             })"

definition calculateFullKellyBetWithPortfolio ::
  "Collaborators \<Rightarrow> real \<Rightarrow> real \<Rightarrow> string \<Rightarrow> real \<Rightarrow> real \<Rightarrow> BetRecommendationFull option" where
  "calculateFullKellyBetWithPortfolio env estimatedProb_v deferenceFactor_v marketSlug balance portfolioValue =
     map_option snd
       (fullKellyPortfolio_run env estimatedProb_v deferenceFactor_v marketSlug balance portfolioValue)"

definition portfolioLog ::
  "Collaborators \<Rightarrow> real \<Rightarrow> real \<Rightarrow> string \<Rightarrow> real \<Rightarrow> real \<Rightarrow> RootFinds option" where
  "portfolioLog env estimatedProb_v deferenceFactor_v marketSlug balance portfolioValue =
     (case fullKellyPortfolio_run env estimatedProb_v deferenceFactor_v marketSlug balance portfolioValue of
        None \<Rightarrow> None
      | Some (printed, result) \<Rightarrow> printed)"

text \<open>
  The market of the examples below: every bet is filled at the constant price \<open>1/2\<close>
  (two shares for each unit staked, as against a resting limit order at 50%), and the
  market's probability is \<open>1/2\<close>.
\<close>

definition flatMarket :: Collaborators where
  "flatMarket =
     \<lparr>getMarketProbability = (\<lambda>slug. Some (1 / 2)),
      getBinaryCpmmBetInfoWrapper =
        (\<lambda>outcome_v betAmount slug. \<lparr>newShares = 2 * betAmount, probAfter = Some (1 / 2)\<rparr>)\<rparr>"

text \<open>A market whose probability cannot be obtained, and one whose probability is 0.\<close>

definition noMarket :: Collaborators where
  "noMarket = flatMarket\<lparr>getMarketProbability := (\<lambda>slug. None)\<rparr>"

definition zeroMarket :: Collaborators where
  "zeroMarket = flatMarket\<lparr>getMarketProbability := (\<lambda>slug. Some 0)\<rparr>"

section \<open>Auxiliary notions for the proofs about the payout distribution engine\<close>

text \<open>
  These are not functions of the program. \<open>collect\<close> is the loop
  \<^verbatim>\<open>for (...) result.set(k, (result.get(k) || 0) + p)\<close> over a list of weighted payouts;
  \<open>massAt\<close> is the mass that such a list gives to one payout; \<open>pairItems\<close> lists the
  sums and products that the two nested loops of \<^verbatim>\<open>convolveDistributions\<close> go through;
  \<open>outcomeItems\<close> is the list \<^verbatim>\<open>outcomeProbsAndPayouts\<close> of the cartesian method.
\<close>

definition massAt :: "(real \<times> real) list \<Rightarrow> real \<Rightarrow> real" where
  "massAt items k = sum_list (map snd (filter (\<lambda>e. fst e = k) items))"

definition collect :: "(real \<times> real) list \<Rightarrow> PMF \<Rightarrow> PMF" where
  "collect items m = foldl (\<lambda>m (k, p). accumulate m k p) m items"

definition pairItems :: "(real \<times> real) list \<Rightarrow> (real \<times> real) list \<Rightarrow> (real \<times> real) list" where
  "pairItems xs ys = concat (map (\<lambda>(k1, p1). map (\<lambda>(k2, p2). (k1 + k2, p1 * p2)) ys) xs)"

definition outcomeItems :: "PositionModel list \<Rightarrow> (real \<times> real) list" where
  "outcomeItems bets =
     map (\<lambda>outcome_v. (payout (outcomeProbAndPayout outcome_v), probability (outcomeProbAndPayout outcome_v)))
       (cartesianProduct (map betBranches bets))"

section \<open>Odds conversion round-trips\<close>

lemma jdiv_Some [simp]: "b \<noteq> 0 \<Longrightarrow> jdiv a b = Some (a / b)"
  by (simp add: jdiv_def)

lemma jdiv_zero [simp]: "jdiv a 0 = None"
  by (simp add: jdiv_def)

text \<open>
  C3. For every value \<open>v > 0\<close> and every pair of representations \<open>X\<close>, \<open>Y\<close>:
  converting \<open>v\<close> from \<open>X\<close> to \<open>Y\<close> yields a finite number \<open>w\<close>, and converting \<open>w\<close>
  back from \<open>Y\<close> to \<open>X\<close> yields \<open>v\<close> (exactly, in exact arithmetic).
\<close>

theorem convertOdds_roundtrip:
  assumes "0 < v"
  shows "\<exists>w. convertOdds X Y v = Some w \<and> convertOdds Y X w = Some v"
proof (cases "X = Y")
  case True
  then show ?thesis by (simp add: convertOdds_def)
next
  case False
  from assms have nz: "v \<noteq> 0" "v + 1 \<noteq> 0" by simp_all
  from False nz show ?thesis
    by (cases X; cases Y) (simp_all add: convertOdds_def)
qed

theorem convertOdds_roundtrip_witness:
  "(0::real) < 4 \<and> (\<exists>w. convertOdds ImpliedProbability EnglishOdds 4 = Some w
     \<and> convertOdds EnglishOdds ImpliedProbability w = Some 4)"
  using convertOdds_roundtrip [of 4 ImpliedProbability EnglishOdds] by simp

section \<open>The naive Kelly fraction\<close>

text \<open>
  C4. For \<open>marketProb\<close> in \<open>(0,1)\<close>, \<open>estimatedProb\<close> in \<open>[0,1]\<close> and
  \<open>deferenceFactor\<close> in \<open>[0,1]\<close>, \<^verbatim>\<open>calculateNaiveKellyFraction\<close> returns the
  fraction \<open>k \<cdot> |p\<^sub>e - p\<^sub>m| / (1 - p\<^sub>m)\<close> clamped into \<open>[0,1]\<close>, which therefore lies
  in \<open>[0,1]\<close>, and the outcome YES if and only if \<open>estimatedProb > marketProb\<close>.
\<close>

theorem calculateNaiveKellyFraction_clamped:
  assumes "0 < pm" and "pm < 1" and "0 \<le> pe" and "pe \<le> 1" and "0 \<le> k" and "k \<le> 1"
  shows "\<exists>r. calculateNaiveKellyFraction
                \<lparr>marketProb = pm, estimatedProb = pe, deferenceFactor = k\<rparr> = Some r
             \<and> fraction r = min (max (k * (\<bar>pe - pm\<bar> / (1 - pm))) 0) 1
             \<and> 0 \<le> fraction r \<and> fraction r \<le> 1
             \<and> (side r = YES \<longleftrightarrow> pe > pm)"
proof -
  from assms have "1 - pm \<noteq> 0" by simp
  then show ?thesis
    by (simp add: calculateNaiveKellyFraction_def)
qed

theorem calculateNaiveKellyFraction_clamped_witness:
  "\<exists>r. calculateNaiveKellyFraction
          \<lparr>marketProb = 4 / 10, estimatedProb = 6 / 10, deferenceFactor = 1 / 2\<rparr> = Some r
       \<and> fraction r = 1 / 6 \<and> side r = YES"
  using calculateNaiveKellyFraction_clamped [of "4 / 10" "6 / 10" "1 / 2"] by auto

lemma example_naive_bet:
  "calculateNaiveKellyBet 1000 \<lparr>marketProb = 4 / 10, estimatedProb = 6 / 10, deferenceFactor = 1 / 2\<rparr>
     = Some \<lparr>amount = 500 / 3, outcome = YES\<rparr>"
  by (simp add: calculateNaiveKellyBet_def calculateNaiveKellyFraction_def)

section \<open>The root finder\<close>

lemma D_shift: "D (\<lambda>x. Some (x + c)) x (1 / 1000) = Some 1"
  by (simp add: D_def)

lemma newtonStep_shift:
  "newtonStep (\<lambda>x. Some (x + c)) lowerBound upperBound x
     = Some (clampToBounds lowerBound upperBound (- c))"
  by (simp add: newtonStep_def D_shift)

text \<open>
  C5. On \<open>f(x) = x - 3\<close> over \<open>[0, 10]\<close> with the default parameters, \<^verbatim>\<open>findRoot\<close>
  leaves its loop through the convergence test at loop index 1, the second of the ten
  iterations allowed, and returns 3, which is within \<open>1e-6\<close> of the root 3.
\<close>

theorem findRoot_linear_converges:
  "findRoot_run (\<lambda>x. Some (x - 3)) 0 10 10 (1 / 1000000) = Some (Converged 1 3)
   \<and> (\<exists>r. findRoot_default (\<lambda>x. Some (x - 3)) 0 10 = Some r \<and> \<bar>r - 3\<bar> < 1 / 1000000)"
proof -
  have step: "newtonStep (\<lambda>x. Some (x - 3)) 0 10 x = Some 3" for x :: real
    using newtonStep_shift [of "- 3" 0 10 x] by (simp add: clampToBounds_def)
  have run: "findRoot_run (\<lambda>x. Some (x - 3)) 0 10 10 (1 / 1000000) = Some (Converged 1 3)"
    by (simp add: findRoot_run_def eval_nat_numeral step)
  then show ?thesis
    by (simp add: findRoot_default_def findRoot_def)
qed

lemma clampToBounds_within:
  "lowerBound \<le> upperBound \<Longrightarrow>
   lowerBound \<le> clampToBounds lowerBound upperBound y \<and> clampToBounds lowerBound upperBound y \<le> upperBound"
  by (simp add: clampToBounds_def)

lemma newtonStep_within:
  "lowerBound \<le> upperBound \<Longrightarrow> newtonStep f lowerBound upperBound x = Some y \<Longrightarrow>
   lowerBound \<le> y \<and> y \<le> upperBound"
  by (auto simp: newtonStep_def clampToBounds_within split: bind_splits)

lemma findRoot_loop_within:
  "lowerBound \<le> upperBound \<Longrightarrow> lowerBound \<le> x \<Longrightarrow> x \<le> upperBound \<Longrightarrow>
   findRoot_loop f lowerBound upperBound tolerance n i x = Some e \<Longrightarrow>
   lowerBound \<le> exit_value e \<and> exit_value e \<le> upperBound"
proof (induction n arbitrary: i x)
  case 0
  then show ?case by auto
next
  case (Suc n)
  from Suc.prems(4) obtain y where
    y: "newtonStep f lowerBound upperBound x = Some y" and
    rest: "(if \<bar>y - x\<bar> < tolerance then Some (Converged i y)
            else findRoot_loop f lowerBound upperBound tolerance n (Suc i) y) = Some e"
    by (auto split: bind_splits)
  from newtonStep_within [OF Suc.prems(1) y] have yb: "lowerBound \<le> y" "y \<le> upperBound"
    by simp_all
  show ?case
  proof (cases "\<bar>y - x\<bar> < tolerance")
    case True
    with rest yb show ?thesis by auto
  next
    case False
    with rest have "findRoot_loop f lowerBound upperBound tolerance n (Suc i) y = Some e"
      by simp
    from Suc.IH [OF Suc.prems(1) yb this] show ?thesis .
  qed
qed

lemma findRoot_within:
  "lowerBound \<le> upperBound \<Longrightarrow> findRoot f lowerBound upperBound iterations tolerance = Some r \<Longrightarrow>
   lowerBound \<le> r \<and> r \<le> upperBound"
  by (auto simp: findRoot_def findRoot_run_def dest!: findRoot_loop_within [rotated 3])

lemma findRoot_loop_shift_total:
  "\<exists>e. findRoot_loop (\<lambda>x. Some (x + 100)) 0 10 tolerance n i x = Some e"
proof (induction n arbitrary: i x)
  case 0
  show ?case by simp
next
  case (Suc n)
  then show ?case by (simp add: newtonStep_shift)
qed

text \<open>
  C6. On \<open>f(x) = x + 100\<close> over \<open>[0, 10]\<close>, for every iteration cap and every
  tolerance, \<^verbatim>\<open>findRoot\<close> returns a number, and that number lies in \<open>[0, 10]\<close>.
  Every iterate \<^verbatim>\<open>xNext\<close> that the loop compares with \<^verbatim>\<open>x\<close> and carries on with is
  the Newton step clamped into \<open>[0, 10]\<close>; here the unclamped step is \<open>-100\<close> and the
  clamped one the lower bound 0.
\<close>

theorem findRoot_shift_clamped:
  "(\<exists>r. findRoot (\<lambda>x. Some (x + 100)) 0 10 iterations tolerance = Some r \<and> 0 \<le> r \<and> r \<le> 10)
   \<and> (\<forall>x. newtonStep (\<lambda>x. Some (x + 100)) 0 10 x = Some (clampToBounds 0 10 (x - (x + 100) / 1))
          \<and> clampToBounds 0 10 (x - (x + 100) / 1) = 0)"
proof -
  have "\<exists>e. findRoot_run (\<lambda>x. Some (x + 100)) 0 10 iterations tolerance = Some e"
    unfolding findRoot_run_def by (rule findRoot_loop_shift_total)
  then obtain e where e: "findRoot_run (\<lambda>x. Some (x + 100)) 0 10 iterations tolerance = Some e" ..
  then have r: "findRoot (\<lambda>x. Some (x + 100)) 0 10 iterations tolerance = Some (exit_value e)"
    by (simp add: findRoot_def)
  have "(0::real) \<le> 10" by simp
  from findRoot_within [OF this r] r have first:
    "\<exists>r. findRoot (\<lambda>x. Some (x + 100)) 0 10 iterations tolerance = Some r \<and> 0 \<le> r \<and> r \<le> 10"
    by simp
  have second: "newtonStep (\<lambda>x. Some (x + 100)) 0 10 x = Some (clampToBounds 0 10 (x - (x + 100) / 1))
      \<and> clampToBounds 0 10 (x - (x + 100) / 1) = 0" for x :: real
    by (simp add: newtonStep_shift clampToBounds_def)
  from first second show ?thesis by blast
qed

section \<open>The guard on the starting market probability\<close>

text \<open>
  C8. When the starting market probability cannot be obtained (the collaborator yields
  \<^verbatim>\<open>undefined\<close>), both optimizers return, without any error, the degenerate
  recommendation \<open>amount = 0\<close>, \<open>outcome = YES\<close>, \<open>shares = 0\<close>, \<open>pAfter = 0\<close>,
  whatever their other arguments are.
\<close>

theorem unavailable_probability_degenerate:
  assumes "getMarketProbability env marketSlug = None"
  shows "calculateFullKellyBet env estimatedProb_v deferenceFactor_v marketSlug bankroll
           = Some \<lparr>amount = 0, outcome = YES, shares = 0, pAfter = 0\<rparr>
       \<and> calculateFullKellyBetWithPortfolio env estimatedProb_v deferenceFactor_v marketSlug balance
            portfolioValue
           = Some \<lparr>amount = 0, outcome = YES, shares = 0, pAfter = 0\<rparr>"
  using assms
  by (simp add: calculateFullKellyBet_def calculateFullKellyBetWithPortfolio_def
        fullKellyPortfolio_run_def degenerate_def)

theorem unavailable_probability_degenerate_witness:
  "getMarketProbability noMarket ''some-market'' = None
   \<and> calculateFullKellyBet noMarket (6 / 10) (1 / 2) ''some-market'' 1000
       = Some \<lparr>amount = 0, outcome = YES, shares = 0, pAfter = 0\<rparr>
   \<and> calculateFullKellyBetWithPortfolio noMarket (6 / 10) (1 / 2) ''some-market'' 0 5000
       = Some \<lparr>amount = 0, outcome = YES, shares = 0, pAfter = 0\<rparr>"
proof -
  have h: "getMarketProbability noMarket ''some-market'' = None"
    by (simp add: noMarket_def)
  from unavailable_probability_degenerate [OF h, of "6 / 10" "1 / 2" 1000 0 5000] h
  show ?thesis by simp
qed

text \<open>
  C10. When the fetched starting market probability is the number 0, both optimizers
  take the same path as for an absent probability and return \<open>amount = 0\<close>,
  \<open>outcome = YES\<close>, \<open>shares = 0\<close>, \<open>pAfter = 0\<close>.
\<close>

theorem zero_probability_degenerate:
  assumes "getMarketProbability env marketSlug = Some 0"
  shows "calculateFullKellyBet env estimatedProb_v deferenceFactor_v marketSlug bankroll
           = Some \<lparr>amount = 0, outcome = YES, shares = 0, pAfter = 0\<rparr>
       \<and> calculateFullKellyBetWithPortfolio env estimatedProb_v deferenceFactor_v marketSlug balance
            portfolioValue
           = Some \<lparr>amount = 0, outcome = YES, shares = 0, pAfter = 0\<rparr>"
  using assms
  by (simp add: calculateFullKellyBet_def calculateFullKellyBetWithPortfolio_def
        fullKellyPortfolio_run_def degenerate_def)

theorem zero_probability_degenerate_witness:
  "getMarketProbability zeroMarket ''some-market'' = Some 0
   \<and> calculateFullKellyBet zeroMarket (6 / 10) (1 / 2) ''some-market'' 1000
       = Some \<lparr>amount = 0, outcome = YES, shares = 0, pAfter = 0\<rparr>
   \<and> calculateFullKellyBetWithPortfolio zeroMarket (6 / 10) (1 / 2) ''some-market'' 4000 5000
       = Some \<lparr>amount = 0, outcome = YES, shares = 0, pAfter = 0\<rparr>"
proof -
  have h: "getMarketProbability zeroMarket ''some-market'' = Some 0"
    by (simp add: zeroMarket_def)
  from zero_probability_degenerate [OF h, of "6 / 10" "1 / 2" 1000 4000 5000] h
  show ?thesis by simp
qed

section \<open>The portfolio variant on a market with a constant price\<close>

lemma flat_prob: "getMarketProbability flatMarket slug = Some (1 / 2)"
  by (simp add: flatMarket_def)

lemma flat_sim:
  "getBinaryCpmmBetInfoWrapper flatMarket oc b slug = \<lparr>newShares = 2 * b, probAfter = Some (1 / 2)\<rparr>"
  by (simp add: flatMarket_def)

lemma englishOdds_flat: "b \<noteq> 0 \<Longrightarrow> englishOdds flatMarket oc slug b = Some 1"
  by (simp add: englishOdds_def flat_sim)

lemma D_englishOdds_flat:
  "b \<noteq> 1 / 10 \<Longrightarrow> b \<noteq> - (1 / 10) \<Longrightarrow> D (englishOdds flatMarket oc slug) b (1 / 10) = Some 0"
  by (simp add: D_def englishOdds_flat)

lemma naive_flat:
  "calculateNaiveKellyBet 4000 \<lparr>marketProb = 1 / 2, estimatedProb = 99 / 100, deferenceFactor = 1\<rparr>
     = Some \<lparr>amount = 3920, outcome = YES\<rparr>"
  by (simp add: calculateNaiveKellyBet_def calculateNaiveKellyFraction_def)

lemma pmf_flat:
  "computePayoutDistribution [\<lparr>probability = 1 / 2, payout = 1 / 2, loan = None\<rparr>] Cartesian
     = [(0, 1 / 2), (1 / 2, 1 / 2)]"
  by (simp add: computePayoutDistribution_def computePayoutPMFCartesian_def cartesianProduct_def
        betBranches_def outcomeProbAndPayout_def accumulate_def get_or_0_def map_get_def)

lemma balanceOnly_flat:
  "b \<noteq> 0 \<Longrightarrow> b \<noteq> 1 / 10 \<Longrightarrow> b \<noteq> - (1 / 10) \<Longrightarrow>
   dEVdBetBalanceOnly flatMarket (99 / 100) 1 slug 4000 (1 / 2) YES b = Some (3920 - b)"
  by (simp add: dEVdBetBalanceOnly_def englishOdds_flat D_englishOdds_flat winProb_def)

lemma cashedOut_flat:
  "b \<noteq> 0 \<Longrightarrow> b \<noteq> 1 / 10 \<Longrightarrow> b \<noteq> - (1 / 10) \<Longrightarrow> b \<noteq> 5000 \<Longrightarrow> b \<noteq> - 5000 \<Longrightarrow>
   dEVdBetIlliquidCashedOut flatMarket (99 / 100) 1 slug 4000 (1 / 4) (1 / 2) YES b
     = Some ((99 / 100) / (5 / 4 + b / 4000) - (1 / 100) / (5 / 4 - b / 4000))"
  by (simp add: dEVdBetIlliquidCashedOut_def englishOdds_flat D_englishOdds_flat winProb_def
        marginalEV_def)

lemma integrated_flat:
  "b \<noteq> 0 \<Longrightarrow> b \<noteq> 1 / 10 \<Longrightarrow> b \<noteq> - (1 / 10) \<Longrightarrow> b \<noteq> 4000 \<Longrightarrow> b \<noteq> - 4000 \<Longrightarrow>
   b \<noteq> 6000 \<Longrightarrow> b \<noteq> - 6000 \<Longrightarrow>
   dEVdBet flatMarket (99 / 100) 1 slug 4000 [(0, 1 / 2), (1 / 2, 1 / 2)] (1 / 2) YES b
     = Some (((99 / 100) / (1 + b / 4000) - (1 / 100) / (1 - b / 4000)) * (1 / 2)
           + ((99 / 100) / (3 / 2 + b / 4000) - (1 / 100) / (3 / 2 - b / 4000)) * (1 / 2))"
  by (simp add: dEVdBet_def englishOdds_flat D_englishOdds_flat winProb_def marginalEV_def
        integrateOverPmf_def)

lemma initial_flat:
  "findRoot_default (dEVdBetBalanceOnly flatMarket (99 / 100) 1 slug 4000 (1 / 2) YES) 0 3920
     = Some 3920"
  by (simp add: findRoot_default_def findRoot_def findRoot_run_def eval_nat_numeral newtonStep_def
        D_def clampToBounds_def balanceOnly_flat)

lemma high_flat:
  "findRoot_default
     (dEVdBetIlliquidCashedOut flatMarket (99 / 100) 1 slug 4000 (1 / 4) (1 / 2) YES) 1960 7840
     = Some 4900"
  by (simp add: findRoot_default_def findRoot_def findRoot_run_def eval_nat_numeral newtonStep_def
        D_def clampToBounds_def cashedOut_flat)

lemma bet_flat:
  "findRoot_default
     (dEVdBet flatMarket (99 / 100) 1 slug 4000 [(0, 1 / 2), (1 / 2, 1 / 2)] (1 / 2) YES) 1960 7840
     = Some 7840"
  by (simp add: findRoot_default_def findRoot_def findRoot_run_def eval_nat_numeral newtonStep_def
        D_def clampToBounds_def integrated_flat)

lemma run_flat:
  "fullKellyPortfolio_run flatMarket (99 / 100) 1 slug 4000 portfolioValue
     = Some (Some \<lparr>optimalBetInitial = 3920, optimalBet = 7840, optimalBetHigh = 4900\<rparr>,
             \<lparr>amount = 7840, outcome = YES, shares = 15680, pAfter = 1 / 2\<rparr>)"
  by (simp add: fullKellyPortfolio_run_def flat_prob flat_sim naive_flat pmf_flat
        portfolioRootFinds_def initial_flat bet_flat high_flat)

lemma calcBetEstimate_flat:
  "b \<noteq> 0 \<Longrightarrow> b \<noteq> 1 / 10 \<Longrightarrow> b \<noteq> - (1 / 10) \<Longrightarrow>
   calcBetEstimate flatMarket (99 / 100) 1 slug 4000 (1 / 2) YES b = Some (3920 - b)"
  by (simp add: calcBetEstimate_def englishOdds_flat D_englishOdds_flat winProb_def)

lemma fullKelly_flat_result:
  "calculateFullKellyBet flatMarket (99 / 100) 1 slug 4000
     = Some \<lparr>amount = 3920, outcome = YES, shares = 7840, pAfter = 1 / 2\<rparr>"
proof -
  have "findRoot_default (calcBetEstimate flatMarket (99 / 100) 1 slug 4000 (1 / 2) YES) 0 3920
          = Some 3920"
    by (simp add: findRoot_default_def findRoot_def findRoot_run_def eval_nat_numeral
          newtonStep_def D_def clampToBounds_def calcBetEstimate_flat)
  then show ?thesis
    by (simp add: calculateFullKellyBet_def flat_prob flat_sim naive_flat)
qed

text \<open>
  What the code does guarantee about the three root-finds: each lies in its search
  window, the first in \<open>[lowerBound, upperBound]\<close> and the other two in
  \<open>[optimalBetInitial / 2, 2 \<cdot> optimalBetInitial]\<close>.
\<close>

lemma portfolioRootFinds_windows:
  assumes "portfolioRootFinds env ep k slug bal rel pmf p oc lowerBound upperBound = Some finds"
    and "0 \<le> lowerBound" and "lowerBound \<le> upperBound"
  shows "lowerBound \<le> optimalBetInitial finds \<and> optimalBetInitial finds \<le> upperBound
       \<and> optimalBetInitial finds * (1 / 2) \<le> optimalBet finds
       \<and> optimalBet finds \<le> optimalBetInitial finds * 2
       \<and> optimalBetInitial finds * (1 / 2) \<le> optimalBetHigh finds
       \<and> optimalBetHigh finds \<le> optimalBetInitial finds * 2"
proof -
  from assms(1) obtain a b c where
    a: "findRoot_default (dEVdBetBalanceOnly env ep k slug bal p oc) lowerBound upperBound = Some a" and
    b: "findRoot_default (dEVdBet env ep k slug bal pmf p oc) (a * (1 / 2)) (a * 2) = Some b" and
    c: "findRoot_default (dEVdBetIlliquidCashedOut env ep k slug bal rel p oc) (a * (1 / 2)) (a * 2) = Some c" and
    f: "finds = \<lparr>optimalBetInitial = a, optimalBet = b, optimalBetHigh = c\<rparr>"
    by (auto simp: portfolioRootFinds_def split: bind_splits)
  from a assms(3) have ab: "lowerBound \<le> a \<and> a \<le> upperBound"
    unfolding findRoot_default_def by (rule findRoot_within [rotated])
  with assms(2) have w: "a * (1 / 2) \<le> a * 2" by simp
  from b w have bb: "a * (1 / 2) \<le> b \<and> b \<le> a * 2"
    unfolding findRoot_default_def by (rule findRoot_within [rotated])
  from c w have cb: "a * (1 / 2) \<le> c \<and> c \<le> a * 2"
    unfolding findRoot_default_def by (rule findRoot_within [rotated])
  from ab bb cb f show ?thesis by simp
qed

text \<open>
  C1. The ordering \<open>optimalBetInitial \<le> optimalBet \<le> optimalBetHigh\<close> does not hold on
  the code. With \<open>estimatedProb = 0.99\<close>, \<open>deferenceFactor = 1\<close>, \<open>balance = 4000\<close> on a
  market at probability \<open>1/2\<close> that fills every bet at the price \<open>1/2\<close>, the function
  prints \<open>optimalBetInitial = 3920\<close>, \<open>optimalBet = 7840\<close>, \<open>optimalBetHigh = 4900\<close>:
  the integrated root-find ends on its upper bound, above the cashed-out one.
\<close>

theorem portfolio_ordering_violated:
  "\<exists>finds. portfolioLog flatMarket (99 / 100) 1 ''some-market'' 4000 5000 = Some finds
     \<and> optimalBetInitial finds = 3920 \<and> optimalBet finds = 7840 \<and> optimalBetHigh finds = 4900
     \<and> optimalBetHigh finds < optimalBet finds"
  by (simp add: portfolioLog_def run_flat)

text \<open>
  C9. The result of \<^verbatim>\<open>calculateFullKellyBetWithPortfolio\<close> does not depend on its
  argument \<^verbatim>\<open>portfolioValue\<close>: two calls that differ in that argument only, with the
  same collaborators, return the same recommendation.
\<close>

theorem portfolioValue_ignored:
  "calculateFullKellyBetWithPortfolio env estimatedProb_v deferenceFactor_v marketSlug balance
     portfolioValue
   = calculateFullKellyBetWithPortfolio env estimatedProb_v deferenceFactor_v marketSlug balance
       portfolioValue'"
  by (simp add: calculateFullKellyBetWithPortfolio_def fullKellyPortfolio_run_def)

lemma portfolio_flat_result:
  "calculateFullKellyBetWithPortfolio flatMarket (99 / 100) 1 slug 4000 portfolioValue
     = Some \<lparr>amount = 7840, outcome = YES, shares = 15680, pAfter = 1 / 2\<rparr>"
  by (simp add: calculateFullKellyBetWithPortfolio_def run_flat)

section \<open>The payout distribution engine\<close>

subsection \<open>The map operations\<close>

lemma get_or_0_simp: "get_or_0 m k = (case map_of m k of None \<Rightarrow> 0 | Some p \<Rightarrow> p)"
  by (simp add: get_or_0_def map_get_def split: option.splits)

lemma map_of_map_set: "map_of (map_set k v m) = (map_of m)(k \<mapsto> v)"
  by (induction m) (auto simp: fun_eq_iff)

lemma keys_map_set: "fst ` set (map_set k v m) = insert k (fst ` set m)"
proof (induction m)
  case Nil
  show ?case by simp
next
  case (Cons e m)
  obtain j p where e: "e = (j, p)" by (cases e)
  show ?case
  proof (cases "j = k")
    case True
    with e show ?thesis by simp
  next
    case False
    with e Cons.IH show ?thesis by (simp add: insert_commute)
  qed
qed

lemma distinct_map_set: "distinct (map fst m) \<Longrightarrow> distinct (map fst (map_set k v m))"
  by (induction m) (auto simp: keys_map_set)

lemma totalMass_map_set: "totalMass (map_set k v m) = totalMass m - get_or_0 m k + v"
  by (induction m) (auto simp: totalMass_def get_or_0_simp)

lemma totalMass_accumulate: "totalMass (accumulate m k p) = totalMass m + p"
  by (simp add: accumulate_def totalMass_map_set)

lemma get_or_0_accumulate:
  "get_or_0 (accumulate m k p) j = get_or_0 m j + (if j = k then p else 0)"
  by (simp add: accumulate_def get_or_0_simp map_of_map_set)

lemma keys_accumulate: "fst ` set (accumulate m k p) = insert k (fst ` set m)"
  by (simp add: accumulate_def keys_map_set)

lemma distinct_accumulate: "distinct (map fst m) \<Longrightarrow> distinct (map fst (accumulate m k p))"
  by (simp add: accumulate_def distinct_map_set)

lemma get_or_0_Nil [simp]: "get_or_0 [] k = 0"
  by (simp add: get_or_0_simp)

lemma totalMass_Nil [simp]: "totalMass [] = 0"
  by (simp add: totalMass_def)

subsection \<open>Accumulating a list of weighted payouts\<close>

lemma collect_Nil [simp]: "collect [] m = m"
  by (simp add: collect_def)

lemma collect_Cons [simp]: "collect ((k, p) # items) m = collect items (accumulate m k p)"
  by (simp add: collect_def)

lemma collect_append: "collect (xs @ ys) m = collect ys (collect xs m)"
  by (simp add: collect_def)

lemma massAt_Nil [simp]: "massAt [] k = 0"
  by (simp add: massAt_def)

lemma massAt_Cons [simp]: "massAt ((j, p) # items) k = (if j = k then p else 0) + massAt items k"
  by (simp add: massAt_def)

lemma massAt_append: "massAt (xs @ ys) k = massAt xs k + massAt ys k"
  by (simp add: massAt_def)

lemma totalMass_collect: "totalMass (collect items m) = totalMass m + sum_list (map snd items)"
  by (induction items arbitrary: m) (auto simp: totalMass_accumulate)

lemma get_or_0_collect: "get_or_0 (collect items m) k = get_or_0 m k + massAt items k"
  by (induction items arbitrary: m) (auto simp: get_or_0_accumulate)

lemma keys_collect: "fst ` set (collect items m) = fst ` set m \<union> fst ` set items"
proof (induction items arbitrary: m)
  case Nil
  show ?case by simp
next
  case (Cons e items)
  obtain j p where e: "e = (j, p)" by (cases e)
  from Cons.IH [of "accumulate m j p"] e show ?case
    by (simp add: keys_accumulate)
qed

lemma distinct_collect: "distinct (map fst m) \<Longrightarrow> distinct (map fst (collect items m))"
  by (induction items arbitrary: m) (auto simp: distinct_accumulate)

lemma massAt_distinct: "distinct (map fst m) \<Longrightarrow> massAt m k = get_or_0 m k"
proof (induction m)
  case Nil
  show ?case by simp
next
  case (Cons e m)
  obtain j p where e: "e = (j, p)" by (cases e)
  show ?case
  proof (cases "j = k")
    case True
    with Cons.prems e have "k \<notin> fst ` set m" by auto
    then have "map_of m k = None" by (simp add: map_of_eq_None_iff)
    with Cons e True show ?thesis by (simp add: get_or_0_simp)
  next
    case False
    with Cons e show ?thesis by (simp add: get_or_0_simp)
  qed
qed

lemma samePMF_I:
  assumes "distinct (map fst p)" and "distinct (map fst q)"
    and "fst ` set p = fst ` set q" and "\<And>k. get_or_0 p k = get_or_0 q k"
  shows "samePMF p q"
proof -
  have "map_of p k = map_of q k" for k
  proof (cases "k \<in> fst ` set p")
    case False
    with assms(3) have "map_of p k = None" "map_of q k = None"
      by (simp_all add: map_of_eq_None_iff)
    then show ?thesis by simp
  next
    case True
    then obtain v where v: "map_of p k = Some v"
      by (cases "map_of p k") (auto simp: map_of_eq_None_iff)
    from True assms(3) obtain w where w: "map_of q k = Some w"
      by (cases "map_of q k") (auto simp: map_of_eq_None_iff)
    from assms(4) [of k] v w show ?thesis by (simp add: get_or_0_simp)
  qed
  then have "map_of p = map_of q" by (simp add: fun_eq_iff)
  with assms(1,2) show ?thesis by (simp add: samePMF_def map_of_inject_set)
qed


subsection \<open>Pairwise sums of payouts\<close>

lemma pairItems_Nil [simp]: "pairItems [] ys = []"
  by (simp add: pairItems_def)

lemma pairItems_Cons [simp]:
  "pairItems ((k1, p1) # xs) ys = map (\<lambda>(k2, p2). (k1 + k2, p1 * p2)) ys @ pairItems xs ys"
  by (simp add: pairItems_def)

lemma massAt_pairItems_two:
  "massAt (pairItems xs [(0, a), (x, b)]) k = a * massAt xs k + b * massAt xs (k - x)"
  by (induction xs) (auto simp: massAt_append algebra_simps)

lemma keys_pairItems:
  "fst ` set (pairItems xs ys) = (\<lambda>(k1, k2). k1 + k2) ` (fst ` set xs \<times> fst ` set ys)"
  by (force simp: pairItems_def image_iff)

lemma sum_pairItems:
  "sum_list (map snd (pairItems xs ys)) = sum_list (map snd xs) * sum_list (map snd ys)"
proof (induction xs)
  case Nil
  show ?case by simp
next
  case (Cons e xs)
  obtain k1 p1 where e: "e = (k1, p1)" by (cases e)
  have "sum_list (map snd (map (\<lambda>(k2, p2). (k1 + k2, p1 * p2)) ys)) = p1 * sum_list (map snd ys)"
    by (induction ys) (auto simp: algebra_simps)
  with Cons e show ?case by (simp add: algebra_simps)
qed

subsection \<open>The convolution of two maps\<close>

lemma foldl_accumulate_collect:
  "foldl (\<lambda>result (payout2, prob2). accumulate result (k1 + payout2) (p1 * prob2)) m ys
     = collect (map (\<lambda>(k2, p2). (k1 + k2, p1 * p2)) ys) m"
  by (induction ys arbitrary: m) auto

lemma convolve_foldl_collect:
  "foldl (\<lambda>result (payout1, prob1).
            foldl (\<lambda>result (payout2, prob2). accumulate result (payout1 + payout2) (prob1 * prob2))
                  result ys) m xs
     = collect (pairItems xs ys) m"
  by (induction xs arbitrary: m) (auto simp: foldl_accumulate_collect collect_append)

lemma convolveDistributions_collect:
  "convolveDistributions pmf1 pmf2 = collect (pairItems pmf1 pmf2) []"
  by (simp add: convolveDistributions_def convolve_foldl_collect)

subsection \<open>The cartesian method\<close>

lemma probability_foldl:
  "foldl (\<lambda>acc betOutcome. acc * probability betOutcome) a xs = a * prod_list (map probability xs)"
  by (induction xs arbitrary: a) (auto simp: algebra_simps)

lemma payout_foldl:
  "foldl (\<lambda>acc betOutcome. acc + payout betOutcome) a xs = a + sum_list (map payout xs)"
  by (induction xs arbitrary: a) (auto simp: algebra_simps)

lemma cartesian_collect:
  "computePayoutPMFCartesian bets = collect (outcomeItems bets) []"
proof -
  have fold: "foldl (\<lambda>cd outcome_v. accumulate cd (payout outcome_v) (probability outcome_v)) m rs
          = collect (map (\<lambda>outcome_v. (payout outcome_v, probability outcome_v)) rs) m" for m rs
    by (induction rs arbitrary: m) auto
  show ?thesis
    unfolding computePayoutPMFCartesian_def outcomeItems_def Let_def fold
    by (simp add: comp_def)
qed

lemma cartesianProduct_Nil: "cartesianProduct [] = [[]]"
  by (simp add: cartesianProduct_def)

lemma cartesianProduct_snoc:
  "cartesianProduct (ess @ [es])
     = concat (map (\<lambda>result. map (\<lambda>entry. result @ [entry]) es) (cartesianProduct ess))"
  by (simp add: cartesianProduct_def)

lemma outcomeItems_Nil: "outcomeItems [] = [(0, 1)]"
  by (simp add: outcomeItems_def cartesianProduct_Nil outcomeProbAndPayout_def)

lemma outcomeItems_snoc:
  "outcomeItems (bets @ [bet])
     = pairItems (outcomeItems bets) [(0, 1 - probability bet), (payout bet, probability bet)]"
proof -
  have "map (\<lambda>r. (payout (outcomeProbAndPayout r), probability (outcomeProbAndPayout r)))
          (concat (map (\<lambda>result. map (\<lambda>entry. result @ [entry]) (betBranches bet)) rs))
        = pairItems (map (\<lambda>r. (payout (outcomeProbAndPayout r), probability (outcomeProbAndPayout r))) rs)
            [(0, 1 - probability bet), (payout bet, probability bet)]" for rs
    by (induction rs) (simp_all add: betBranches_def outcomeProbAndPayout_def probability_foldl payout_foldl)
  then show ?thesis
    by (simp add: outcomeItems_def cartesianProduct_snoc)
qed

lemma sum_outcomeItems: "sum_list (map snd (outcomeItems bets)) = 1"
proof (induction bets rule: rev_induct)
  case Nil
  show ?case by (simp add: outcomeItems_Nil)
next
  case (snoc bet bets)
  then show ?case by (simp add: outcomeItems_snoc sum_pairItems)
qed

lemma cartesian_totalMass: "totalMass (computePayoutPMFCartesian bets) = 1"
  by (simp add: cartesian_collect totalMass_collect sum_outcomeItems)

subsection \<open>The convolution method on positions with nonzero payouts\<close>

lemma convolution_snoc:
  "computePayoutPMFConvolution (bets @ [bet])
     = convolveDistributions (computePayoutPMFConvolution bets)
         (new_Map [(0, 1 - probability bet), (payout bet, probability bet)])"
  by (simp add: computePayoutPMFConvolution_def)

lemma new_Map_two: "x \<noteq> 0 \<Longrightarrow> new_Map [(0, a), (x, b)] = [(0, a), (x, b)]"
  by (simp add: new_Map_def)

lemma convolution_invariant:
  assumes "\<forall>bet \<in> set bets. payout bet \<noteq> 0"
  shows "distinct (map fst (computePayoutPMFConvolution bets))
       \<and> fst ` set (computePayoutPMFConvolution bets) = fst ` set (outcomeItems bets)
       \<and> (\<forall>k. get_or_0 (computePayoutPMFConvolution bets) k = massAt (outcomeItems bets) k)"
  using assms
proof (induction bets rule: rev_induct)
  case Nil
  show ?case
    by (simp add: computePayoutPMFConvolution_def new_Map_def outcomeItems_Nil get_or_0_simp)
next
  case (snoc bet bets)
  let ?R = "computePayoutPMFConvolution bets"
  let ?T = "[(0, 1 - probability bet), (payout bet, probability bet)]"
  from snoc.prems have nz: "payout bet \<noteq> 0" and rest: "\<forall>b \<in> set bets. payout b \<noteq> 0"
    by simp_all
  from snoc.IH [OF rest] have
    d: "distinct (map fst ?R)" and
    ks: "fst ` set ?R = fst ` set (outcomeItems bets)" and
    ms: "\<And>k. get_or_0 ?R k = massAt (outcomeItems bets) k"
    by simp_all
  have R': "computePayoutPMFConvolution (bets @ [bet]) = collect (pairItems ?R ?T) []"
    by (simp add: convolution_snoc new_Map_two [OF nz] convolveDistributions_collect)
  have 1: "distinct (map fst (collect (pairItems ?R ?T) []))"
    by (rule distinct_collect) simp
  have 2: "fst ` set (collect (pairItems ?R ?T) []) = fst ` set (outcomeItems (bets @ [bet]))"
    by (simp add: keys_collect keys_pairItems outcomeItems_snoc ks del: pairItems_Cons)
  have 3: "get_or_0 (collect (pairItems ?R ?T) []) k = massAt (outcomeItems (bets @ [bet])) k" for k
    by (simp add: get_or_0_collect massAt_pairItems_two outcomeItems_snoc massAt_distinct [OF d] ms)
  from 1 2 3 show ?case unfolding R' by blast
qed

lemma methods_agree_nonzero_payouts:
  assumes "\<forall>bet \<in> set bets. payout bet \<noteq> 0"
  shows "samePMF (computePayoutDistribution bets Cartesian) (computePayoutDistribution bets Convolution)"
proof -
  from convolution_invariant [OF assms] have
    d: "distinct (map fst (computePayoutPMFConvolution bets))" and
    ks: "fst ` set (computePayoutPMFConvolution bets) = fst ` set (outcomeItems bets)" and
    ms: "\<And>k. get_or_0 (computePayoutPMFConvolution bets) k = massAt (outcomeItems bets) k"
    by simp_all
  have "samePMF (computePayoutPMFCartesian bets) (computePayoutPMFConvolution bets)"
  proof (rule samePMF_I)
    show "distinct (map fst (computePayoutPMFCartesian bets))"
      unfolding cartesian_collect by (rule distinct_collect) simp
    show "distinct (map fst (computePayoutPMFConvolution bets))" by (fact d)
    show "fst ` set (computePayoutPMFCartesian bets) = fst ` set (computePayoutPMFConvolution bets)"
      by (simp add: cartesian_collect keys_collect ks)
    show "get_or_0 (computePayoutPMFCartesian bets) k = get_or_0 (computePayoutPMFConvolution bets) k" for k
      by (simp add: cartesian_collect get_or_0_collect ms)
  qed
  then show ?thesis by (simp add: computePayoutDistribution_def)
qed


lemma convolution_totalMass_nonzero:
  assumes "\<forall>bet \<in> set bets. payout bet \<noteq> 0"
  shows "totalMass (computePayoutPMFConvolution bets) = 1"
  using assms
proof (induction bets rule: rev_induct)
  case Nil
  show ?case by (simp add: computePayoutPMFConvolution_def new_Map_def totalMass_def)
next
  case (snoc bet bets)
  then have nz: "payout bet \<noteq> 0" and IH: "totalMass (computePayoutPMFConvolution bets) = 1"
    by simp_all
  have "sum_list (map snd (computePayoutPMFConvolution bets)) = 1"
    using IH by (simp add: totalMass_def)
  then show ?case
    by (simp add: convolution_snoc new_Map_two [OF nz] convolveDistributions_collect
          totalMass_collect sum_pairItems del: pairItems_Cons)
qed

subsection \<open>The examples of the specification\<close>

lemma example_one_position:
  "computePayoutDistribution [\<lparr>probability = 3 / 10, payout = 10, loan = None\<rparr>] Convolution
     = [(0, 7 / 10), (10, 3 / 10)]
   \<and> computePayoutDistribution [\<lparr>probability = 3 / 10, payout = 10, loan = None\<rparr>] Cartesian
     = [(0, 7 / 10), (10, 3 / 10)]
   \<and> computeExpectedValue [(0, 7 / 10), (10, 3 / 10)] = 3"
  by (simp add: computePayoutDistribution_def computePayoutPMFCartesian_def cartesianProduct_def
        betBranches_def outcomeProbAndPayout_def accumulate_def get_or_0_def map_get_def
        computePayoutPMFConvolution_def convolveDistributions_def new_Map_def
        computeExpectedValue_def)

lemma example_two_positions:
  "computePayoutDistribution
     [\<lparr>probability = 1 / 2, payout = 4, loan = None\<rparr>, \<lparr>probability = 1 / 2, payout = 6, loan = None\<rparr>]
     Convolution
     = [(0, 1 / 4), (6, 1 / 4), (4, 1 / 4), (10, 1 / 4)]
   \<and> computeExpectedValue [(0, 1 / 4), (6, 1 / 4), (4, 1 / 4), (10, 1 / 4)] = 5"
  by (simp add: computePayoutDistribution_def accumulate_def get_or_0_def map_get_def
        computePayoutPMFConvolution_def convolveDistributions_def new_Map_def
        computeExpectedValue_def)

text \<open>
  C2. The two methods do not agree on every list of positions. For the single position
  with probability \<open>0.3\<close> and payout 0, the cartesian method gives \<open>{0: 1}\<close> and the
  convolution method gives \<open>{0: 0.3}\<close>: the two entries of the position's two-point
  map have the same key, and the second replaces the first. On positions whose payouts
  are all nonzero the two methods do agree (\<open>methods_agree_nonzero_payouts\<close>).
\<close>

theorem convolution_differs_from_cartesian:
  "computePayoutDistribution [\<lparr>probability = 3 / 10, payout = 0, loan = None\<rparr>] Cartesian = [(0, 1)]
   \<and> computePayoutDistribution [\<lparr>probability = 3 / 10, payout = 0, loan = None\<rparr>] Convolution
       = [(0, 3 / 10)]
   \<and> \<not> samePMF (computePayoutDistribution [\<lparr>probability = 3 / 10, payout = 0, loan = None\<rparr>] Cartesian)
               (computePayoutDistribution [\<lparr>probability = 3 / 10, payout = 0, loan = None\<rparr>] Convolution)"
  by (simp add: computePayoutDistribution_def computePayoutPMFCartesian_def cartesianProduct_def
        betBranches_def outcomeProbAndPayout_def accumulate_def get_or_0_def map_get_def
        computePayoutPMFConvolution_def convolveDistributions_def new_Map_def samePMF_def)

text \<open>
  C7. The masses of the PMF do not sum to 1 for every list of positions and both
  methods. For the single position with probability \<open>0.3\<close> and payout 0, the PMF of the
  convolution method has total mass \<open>0.3\<close>. The cartesian method always gives total
  mass 1 (\<open>cartesian_totalMass\<close>), and so does the convolution method on positions
  whose payouts are all nonzero (\<open>convolution_totalMass_nonzero\<close>).
\<close>

theorem convolution_mass_not_one:
  "totalMass (computePayoutDistribution [\<lparr>probability = 3 / 10, payout = 0, loan = None\<rparr>] Convolution)
     = 3 / 10"
  by (simp add: computePayoutDistribution_def accumulate_def get_or_0_def map_get_def
        computePayoutPMFConvolution_def convolveDistributions_def new_Map_def totalMass_def)

end
